theory Spec2Isabelle
  imports Main "HOL-Library.List_Lexorder"
begin

section \<open>Python strings\<close>

text \<open>
  A Python \<^verbatim>\<open>str\<close> is a sequence of Unicode code points: \<^verbatim>\<open>len\<close>, slicing,
  \<^verbatim>\<open>in\<close>, \<^verbatim>\<open>replace\<close> and the regular expressions of \<^verbatim>\<open>re\<close> all count code
  points. A string is therefore a list of code points (\<^verbatim>\<open>ord\<close> values). An ASCII
  literal of the source is written \<open>py ''...''\<close>; a character outside printable
  ASCII is written as its code point.
\<close>

type_synonym str = "int list"

abbreviation (input) py :: "string \<Rightarrow> str" where
  "py s \<equiv> map of_char s"

text \<open>\<^verbatim>\<open>s.startswith(p)\<close>\<close>

fun startswith :: "'a list \<Rightarrow> 'a list \<Rightarrow> bool" where
  "startswith s [] = True"
| "startswith [] (p # ps) = False"
| "startswith (c # cs) (p # ps) = (c = p \<and> startswith cs ps)"

text \<open>\<^verbatim>\<open>p in s\<close>: some position of \<open>s\<close> starts an occurrence of \<open>p\<close>.\<close>

fun str_in :: "'a list \<Rightarrow> 'a list \<Rightarrow> bool" where
  "str_in p [] = (p = [])"
| "str_in p (c # cs) = (startswith (c # cs) p \<or> str_in p cs)"

text \<open>
  \<^verbatim>\<open>s.replace(old, new)\<close>: every occurrence of \<open>old\<close> is replaced, scanning from the
  left and continuing after each occurrence. With an empty \<open>old\<close>, Python puts
  \<open>new\<close> before every character and at the end.
\<close>

function replace :: "'a list \<Rightarrow> 'a list \<Rightarrow> 'a list \<Rightarrow> 'a list" where
  "replace [] old new = (if old = [] then new else [])"
| "replace (c # cs) old new =
     (if old = [] then new @ c # replace cs old new
      else if startswith (c # cs) old
        then new @ replace (drop (length old) (c # cs)) old new
      else c # replace cs old new)"
  by pat_completeness auto
termination
  by (relation "measure (\<lambda>(s, old, new). length s)") auto

text \<open>
  \<^verbatim>\<open>str.isspace\<close> of one character, which is also the class \<^verbatim>\<open>\s\<close> of a \<^verbatim>\<open>str\<close>
  pattern: the ASCII whitespace and separators 9-13 and 28-32, and the Unicode spaces
  U+0085, U+00A0, U+1680, U+2000-U+200A, U+2028, U+2029, U+202F, U+205F, U+3000.
\<close>

definition is_space :: "int \<Rightarrow> bool" where
  "is_space c =
     ((9 \<le> c \<and> c \<le> 13) \<or> (28 \<le> c \<and> c \<le> 32) \<or> c = 133 \<or> c = 160 \<or> c = 5760 \<or>
      (8192 \<le> c \<and> c \<le> 8202) \<or> c = 8232 \<or> c = 8233 \<or> c = 8239 \<or> c = 8287 \<or>
      c = 12288)"

section \<open>The migrator (migrate-roles-to-template.py)\<close>

subsection \<open>The regular expression of the instrumentation rewrite\<close>

text \<open>
  \<^verbatim>\<open>8\.\s+.*\<close> matched at the start of a string: the characters \<^verbatim>\<open>8\<close> (56) and
  \<^verbatim>\<open>.\<close> (46), one or more whitespace characters (greedy, line breaks included), then
  every character up to the next line feed (10; \<^verbatim>\<open>.\<close> matches anything else). Both
  repetitions are greedy and the second may be empty, so the first attempt of the
  matcher succeeds. The result is the text left after the match.
\<close>

fun match_item8 :: "str \<Rightarrow> str option" where
  "match_item8 (a # b # w # t) =
     (if a = 56 \<and> b = 46 \<and> is_space w
      then Some (dropWhile (\<lambda>c. c \<noteq> 10) (dropWhile is_space t))
      else None)"
| "match_item8 s = None"

lemma match_item8_shorter: "match_item8 s = Some rest \<Longrightarrow> length rest < length s"
proof (induction s rule: match_item8.induct)
  case (1 a b w t)
  have "length (dropWhile (\<lambda>c. c \<noteq> 10) (dropWhile is_space t)) \<le> length t"
    by (meson length_dropWhile_le order_trans)
  with 1 show ?case by (auto split: if_splits)
qed simp_all

text \<open>
  \<^verbatim>\<open>re.sub(r'8\.\s+.*', repl, s)\<close>: every match is replaced, leftmost first, the scan
  continuing after each match; \<open>repl\<close> holds no backslash, so it is inserted as it
  is.
\<close>

function re_sub_item8 :: "str \<Rightarrow> str \<Rightarrow> str" where
  "re_sub_item8 repl [] = []"
| "re_sub_item8 repl (c # cs) =
     (case match_item8 (c # cs) of
        Some rest \<Rightarrow> repl @ re_sub_item8 repl rest
      | None \<Rightarrow> c # re_sub_item8 repl cs)"
  by pat_completeness auto
termination
  by (relation "measure (\<lambda>(repl, s). length s)") (auto dest: match_item8_shorter)

subsection \<open>The role table and the templates\<close>

text \<open>
  One entry of \<^verbatim>\<open>self.roles\<close>; the fields are the keys \<^verbatim>\<open>name\<close>, \<^verbatim>\<open>definition\<close>,
  \<^verbatim>\<open>output\<close> and \<^verbatim>\<open>next_role\<close> of the source's dictionaries.
\<close>

record role_info =
  r_name :: str
  r_definition :: str
  r_output :: str
  r_next_role :: str

definition roles :: "(str \<times> role_info) list" where
  "roles =
    [(py ''project-initiator'',
      \<lparr>r_name = py ''@project-initiator'',
       r_definition = py ''Project Discovery Specialist who transforms vague ideas into actionable project briefs'',
       r_output = py ''project-brief.md'',
       r_next_role = py ''@requirements-collector''\<rparr>),
     (py ''requirements-collector'',
      \<lparr>r_name = py ''@requirements-collector'',
       r_definition = py ''Requirements Collection Specialist who gathers comprehensive, clear, and actionable requirements'',
       r_output = py ''user-stories.md'',
       r_next_role = py ''@mvp-specialist''\<rparr>),
     (py ''mvp-specialist'',
      \<lparr>r_name = py ''@mvp-specialist'',
       r_definition = py ''MVP Strategy & Refinement Specialist who identifies minimum viable products'',
       r_output = py ''mvp-requirements.md'',
       r_next_role = py ''@architect''\<rparr>),
     (py ''architect'',
      \<lparr>r_name = py ''@architect'',
       r_definition = py ''Solution Architect (Archie) who designs technology solutions using TOGAF principles'',
       r_output = py ''architecture.md'',
       r_next_role = py ''@planner''\<rparr>),
     (py ''planner'',
      \<lparr>r_name = py ''@planner'',
       r_definition = py ''Task Planning Specialist who creates hierarchical task structures'',
       r_output = py ''task-list.json'',
       r_next_role = py ''@pseudo-coder''\<rparr>),
     (py ''pseudo-coder'',
      \<lparr>r_name = py ''@pseudo-coder'',
       r_definition = py ''Logic Designer who translates implementation tasks into clear pseudo code'',
       r_output = py ''pseudo-code.md'',
       r_next_role = py ''@tdd-evidence-specialist''\<rparr>),
     (py ''tdd-evidence-specialist'',
      \<lparr>r_name = py ''@tdd-evidence-specialist'',
       r_definition = py ''TDD Evidence Specialist who proves systems work through comprehensive tests'',
       r_output = py ''evidence-tests.md'',
       r_next_role = py ''@coder''\<rparr>),
     (py ''coder'',
      \<lparr>r_name = py ''@coder'',
       r_definition = py ''Code Implementation Specialist who writes clean, efficient, modular code'',
       r_output = py ''working code files'',
       r_next_role = py ''@documentation-writer''\<rparr>),
     (py ''documentation-writer'',
      \<lparr>r_name = py ''@documentation-writer'',
       r_definition = py ''Evidence-Based Documentation Specialist who creates measurable, effective documentation'',
       r_output = py ''user guides, API docs'',
       r_next_role = py ''@git-mate''\<rparr>),
     (py ''git-mate'',
      \<lparr>r_name = py ''@git-mate'',
       r_definition = py ''Git Workflow and Versioning Specialist (GitMate) who manages version control'',
       r_output = py ''commits, tags, changelog'',
       r_next_role = py ''deployment''\<rparr>)]"

text \<open>
  \<^verbatim>\<open>self.roles.get(role_name, {})\<close> is the role's entry or the empty dictionary:
  \<open>map_of roles role_name\<close>, with \<open>None\<close> for \<^verbatim>\<open>{}\<close>. On such a value,
  \<^verbatim>\<open>.get(field, default)\<close> is the field of the entry (every entry has all four
  fields) or, on the empty dictionary, the default.
\<close>

definition info_get :: "role_info option \<Rightarrow> (role_info \<Rightarrow> str) \<Rightarrow> str \<Rightarrow> str" where
  "info_get role_info field dflt =
     (case role_info of None \<Rightarrow> dflt | Some r \<Rightarrow> field r)"

text \<open>question_structures["project-initiator"]\<close>

definition pattern_project_initiator :: str where
  "pattern_project_initiator = concat
    [py ''\<newline>'',
     py ''## Interactive Session Structure\<newline>'',
     py ''- Phase 1: Overview & Context Setting\<newline>'',
     py ''- Phase 2: Hierarchical Question Gathering (1, 1.1, 1.1.a format)\<newline>'',
     py ''- Phase 3: Summary & Confirmation\<newline>'',
     py ''- Phase 4: Output Generation & Validation\<newline>'',
     py ''\<newline>'',
     py ''## Question Hierarchy Pattern\<newline>'',
     py ''\<newline>'',
     py ''### Discovery Phase Overview\<newline>'',
     py ''I'll guide you through 4 main areas with approximately 15 total questions:\<newline>'',
     py ''\<newline>'',
     py ''1. Problem Definition (4-5 questions)\<newline>'',
     py ''   1.1. Problem metrics and measurement\<newline>'',
     py ''   1.2. Impact analysis\<newline>'',
     py ''2. Validation & Evidence (3-4 questions)\<newline>'',
     py ''   2.1. Existing solutions evaluation\<newline>'',
     py ''   2.2. Evidence of problem severity\<newline>'',
     py ''3. Constraints & Resources (3-4 questions)\<newline>'',
     py ''   3.1. Technical constraints\<newline>'',
     py ''   3.2. Resource limitations\<newline>'',
     py ''4. Success Vision (2-3 questions)\<newline>'',
     py ''   4.1. Success metrics\<newline>'',
     py ''   4.2. Timeline expectations\<newline>'',
     py ''\<newline>'',
     py ''Total estimated questions: 15\<newline>'',
     py ''Estimated time: 10-15 minutes\<newline>'',
     py ''\<newline>'',
     py ''Navigation: Type 'skip' to move forward, 'back' to revisit, 'overview' to see all questions'']"

text \<open>question_structures["requirements-collector"]\<close>

definition pattern_requirements_collector :: str where
  "pattern_requirements_collector = concat
    [py ''\<newline>'',
     py ''## Interactive Session Structure\<newline>'',
     py ''- Phase 1: Overview & Context Setting\<newline>'',
     py ''- Phase 2: Hierarchical Question Gathering (1, 1.1, 1.1.a format)\<newline>'',
     py ''- Phase 3: Summary & Confirmation\<newline>'',
     py ''- Phase 4: Output Generation & Validation\<newline>'',
     py ''\<newline>'',
     py ''## Question Hierarchy Pattern\<newline>'',
     py ''\<newline>'',
     py ''### Requirements Gathering Overview\<newline>'',
     py ''I'll guide you through 4 main areas with approximately 20 questions:\<newline>'',
     py ''\<newline>'',
     py ''1. Functional Requirements (6-7 questions)\<newline>'',
     py ''   1.1. Core features\<newline>'',
     py ''       1.1.a. Feature priorities\<newline>'',
     py ''       1.1.b. Feature dependencies\<newline>'',
     py ''   1.2. User workflows\<newline>'',
     py ''2. Non-Functional Requirements (5-6 questions)\<newline>'',
     py ''   2.1. Performance requirements\<newline>'',
     py ''   2.2. Security requirements\<newline>'',
     py ''3. User Experience (4-5 questions)\<newline>'',
     py ''   3.1. User personas\<newline>'',
     py ''   3.2. Accessibility needs\<newline>'',
     py ''4. Integration & Data (3-4 questions)\<newline>'',
     py ''   4.1. External systems\<newline>'',
     py ''   4.2. Data requirements\<newline>'',
     py ''\<newline>'',
     py ''Total estimated questions: 20\<newline>'',
     py ''Estimated time: 15-20 minutes'']"

text \<open>question_structures["mvp-specialist"]\<close>

definition pattern_mvp_specialist :: str where
  "pattern_mvp_specialist = concat
    [py ''\<newline>'',
     py ''## Interactive Session Structure\<newline>'',
     py ''- Phase 1: Overview & Context Setting\<newline>'',
     py ''- Phase 2: Hierarchical Question Gathering (1, 1.1, 1.1.a format)\<newline>'',
     py ''- Phase 3: Summary & Confirmation\<newline>'',
     py ''- Phase 4: Output Generation & Validation\<newline>'',
     py ''\<newline>'',
     py ''## Question Hierarchy Pattern\<newline>'',
     py ''\<newline>'',
     py ''### MVP Definition Overview\<newline>'',
     py ''I'll guide you through 3 main areas with approximately 12 questions:\<newline>'',
     py ''\<newline>'',
     py ''1. Core Value Proposition (4-5 questions)\<newline>'',
     py ''   1.1. Primary user need\<newline>'',
     py ''       1.1.a. Evidence of need\<newline>'',
     py ''       1.1.b. Alternative solutions\<newline>'',
     py ''   1.2. Unique value delivery\<newline>'',
     py ''2. Feature Prioritization (4-5 questions)\<newline>'',
     py ''   2.1. Must-have features\<newline>'',
     py ''   2.2. Should-have features\<newline>'',
     py ''   2.3. Could-have features\<newline>'',
     py ''3. Success Metrics (3-4 questions)\<newline>'',
     py ''   3.1. Validation criteria\<newline>'',
     py ''   3.2. Learning objectives\<newline>'',
     py ''\<newline>'',
     py ''Total estimated questions: 12\<newline>'',
     py ''Estimated time: 10-12 minutes'']"

text \<open>The default pattern of \<^verbatim>\<open>question_structures.get(role_name, ...)\<close>.\<close>

definition pattern_default :: str where
  "pattern_default = concat
    [py ''\<newline>'',
     py ''## Interactive Session Structure\<newline>'',
     py ''- Phase 1: Overview & Context Setting\<newline>'',
     py ''- Phase 2: Hierarchical Question Gathering (1, 1.1, 1.1.a format)\<newline>'',
     py ''- Phase 3: Summary & Confirmation\<newline>'',
     py ''- Phase 4: Output Generation & Validation\<newline>'',
     py ''\<newline>'',
     py ''## Question Hierarchy Pattern\<newline>'',
     py ''Questions will follow hierarchical numbering:\<newline>'',
     py ''1. Main topic\<newline>'',
     py ''   1.1. Clarifying question\<newline>'',
     py ''       1.1.a. Specific detail\<newline>'',
     py ''   1.2. Related aspect\<newline>'',
     py ''2. Next main topic'']"

text \<open>The literal part of the f-string sop_template, up to its one placeholder.\<close>

definition sop_text :: str where
  "sop_text = concat
    [py ''\<newline>'',
     py ''## Standard Operating Procedures\<newline>'',
     py ''\<newline>'',
     py ''### Initial Session\<newline>'',
     py ''1. Display role header with current and next suggested role\<newline>'',
     py ''2. Present question overview with time estimate\<newline>'',
     py ''3. Confirm user readiness to proceed\<newline>'',
     py ''4. Begin hierarchical questioning\<newline>'',
     py ''\<newline>'',
     py ''### Working Sessions\<newline>'',
     py ''1. Follow UNDERSTAND '' @ [8594] @ py '' DESIGN '' @ [8594] @ py '' STRUCTURE '' @ [8594] @ py '' VALIDATE approach\<newline>'',
     py ''2. Update task status in real-time\<newline>'',
     py ''3. Maintain version history in output files\<newline>'',
     py ''4. Regular progress checkpoints with user\<newline>'',
     py ''\<newline>'',
     py ''### Validation Session\<newline>'',
     py ''1. Present completed work summary\<newline>'',
     py ''2. Request user validation\<newline>'',
     py ''3. Address any concerns or gaps\<newline>'',
     py ''4. Confirm readiness for handoff\<newline>'',
     py ''\<newline>'',
     py ''### Handoff Session\<newline>'',
     py ''1. Summarize deliverables created\<newline>'',
     py ''2. Highlight key decisions and rationale\<newline>'',
     py ''3. Prepare handoff artifacts for next role\<newline>'',
     py ''4. Suggest next role: '']"

text \<open>confirmation_text\<close>

definition confirmation_text :: str where
  "confirmation_text = concat
    [py ''\<newline>'',
     py ''12. **SUMMARY & CONFIRMATION**:\<newline>'',
     py ''    - After all questions, provide complete summary\<newline>'',
     py ''    - Allow user to revise any answer\<newline>'',
     py ''    - Confirm understanding before proceeding'']"

text \<open>instrumentation_text\<close>

definition instrumentation_text :: str where
  "instrumentation_text = concat
    [py ''8. **INSTRUMENTATION**: Logging, metrics, monitoring requirements for production validation'']"

definition question_structures :: "(str \<times> str) list" where
  "question_structures =
    [(py ''project-initiator'', pattern_project_initiator),
     (py ''requirements-collector'', pattern_requirements_collector),
     (py ''mvp-specialist'', pattern_mvp_specialist)]"

definition add_interaction_pattern :: "str \<Rightarrow> str \<Rightarrow> str" where
  "add_interaction_pattern role_content role_name =
     (let pattern = (case map_of question_structures role_name of
                       Some p \<Rightarrow> p | None \<Rightarrow> pattern_default)
      in role_content @ py ''\<newline>'' @ pattern)"

definition sop_template :: "str \<Rightarrow> str" where
  "sop_template role_name =
     sop_text @ info_get (map_of roles role_name) r_next_role (py ''next appropriate role'')"

definition add_standard_operating_procedures :: "str \<Rightarrow> str \<Rightarrow> str" where
  "add_standard_operating_procedures role_content role_name =
     role_content @ py ''\<newline>'' @ sop_template role_name"

text \<open>The f-string \<^verbatim>\<open>example\<close> of \<^verbatim>\<open>add_example_usage\<close>, placeholder by placeholder.\<close>

definition example :: "role_info option \<Rightarrow> str \<Rightarrow> str" where
  "example role_info role_name = concat
    [py ''\<newline>'',
     py ''## Example Usage\<newline>'',
     py ''\<newline>'',
     [96, 96, 96] @ py ''\<newline>'',
     py ''Claude: '' @ [34] @ py ''Based on your request, I recommend using ''
       @ info_get role_info r_name (py ''@role-name'') @ py '' to ''
       @ info_get role_info r_definition (py ''perform this task'') @ [34] @ py ''\<newline>'',
     py ''User: '' @ info_get role_info r_name (py ''@role-name'') @ py '' or /''
       @ role_name @ py ''\<newline>'',
     py ''\<newline>'',
     info_get role_info r_name (py ''Role'') @ py '': '' @ [127917]
       @ py '' **Current Role**: '' @ info_get role_info r_name (py ''Role Name'')
       @ py '' - '' @ info_get role_info r_definition (py ''Role description'')
       @ py ''\<newline>'',
     [10145, 65039] @ py '' **Next Suggested Role**: ''
       @ info_get role_info r_next_role (py ''Next Role'')
       @ py '' - Continue with next phase\<newline>'',
     py ''\<newline>'',
     py ''I'll now begin the interactive session to gather the necessary information.\<newline>'',
     py ''\<newline>'',
     py ''## Question Overview\<newline>'',
     py ''[Presents hierarchical question structure]\<newline>'',
     py ''\<newline>'',
     py ''Let's begin:\<newline>'',
     py ''\<newline>'',
     py ''**[1/N] First Topic Area**\<newline>'',
     py ''\<newline>'',
     py ''1. [First main question]?\<newline>'',
     py ''   > [Waits for user response]\<newline>'',
     [96, 96, 96]]"

definition add_example_usage :: "str \<Rightarrow> str \<Rightarrow> str" where
  "add_example_usage role_content role_name =
     (let role_info = map_of roles role_name
      in role_content @ py ''\<newline>'' @ example role_info role_name)"

subsection \<open>add_missing_elements\<close>

text \<open>
  The function threads two variables through five guarded blocks: the role's text
  \<^verbatim>\<open>role_content\<close> and the list \<^verbatim>\<open>enhancements\<close>. Each block is a step on that pair,
  in the order of the source.
\<close>

definition step_interaction_pattern :: "str \<Rightarrow> str \<times> str list \<Rightarrow> str \<times> str list" where
  "step_interaction_pattern role_name st =
     (case st of (role_content, enhancements) \<Rightarrow>
        if \<not> str_in (py ''## Interactive Session Structure'') role_content
        then (add_interaction_pattern role_content role_name,
              enhancements @ [py ''interaction_pattern''])
        else (role_content, enhancements))"

definition step_standard_operating_procedures ::
    "str \<Rightarrow> str \<times> str list \<Rightarrow> str \<times> str list" where
  "step_standard_operating_procedures role_name st =
     (case st of (role_content, enhancements) \<Rightarrow>
        if \<not> str_in (py ''## Standard Operating Procedures'') role_content
        then (add_standard_operating_procedures role_content role_name,
              enhancements @ [py ''standard_operating_procedures''])
        else (role_content, enhancements))"

definition step_example_usage :: "str \<Rightarrow> str \<times> str list \<Rightarrow> str \<times> str list" where
  "step_example_usage role_name st =
     (case st of (role_content, enhancements) \<Rightarrow>
        if \<not> str_in (py ''## Example Usage'') role_content
        then (add_example_usage role_content role_name,
              enhancements @ [py ''example_usage''])
        else (role_content, enhancements))"

definition step_summary_confirmation :: "str \<times> str list \<Rightarrow> str \<times> str list" where
  "step_summary_confirmation st =
     (case st of (role_content, enhancements) \<Rightarrow>
        if \<not> str_in (py ''SUMMARY & CONFIRMATION'') role_content
        then
          (if str_in (py ''WORKFLOW EVALUATION'') role_content
           then replace role_content (py ''13. WORKFLOW EVALUATION'')
                  (confirmation_text @ py ''\<newline>13. WORKFLOW EVALUATION'')
           else role_content @ py ''\<newline>'' @ confirmation_text,
           enhancements @ [py ''summary_confirmation''])
        else (role_content, enhancements))"

definition step_instrumentation :: "str \<times> str list \<Rightarrow> str \<times> str list" where
  "step_instrumentation st =
     (case st of (role_content, enhancements) \<Rightarrow>
        if \<not> str_in (py ''INSTRUMENTATION'') role_content \<and> str_in (py ''8. '') role_content
        then (re_sub_item8 (instrumentation_text @ py ''\<newline>9. '') role_content,
              enhancements @ [py ''instrumentation''])
        else (role_content, enhancements))"

definition add_missing_elements :: "str \<Rightarrow> str \<Rightarrow> str \<times> str list" where
  "add_missing_elements role_content role_name =
     step_instrumentation
       (step_summary_confirmation
         (step_example_usage role_name
           (step_standard_operating_procedures role_name
             (step_interaction_pattern role_name (role_content, [])))))"

subsection \<open>migrate_ai_roles_file: splitting and reassembly\<close>

text \<open>
  The class \<^verbatim>\<open>[\w-]\<close> of a \<^verbatim>\<open>str\<close> pattern: an ASCII letter, digit or underscore, a
  hyphen (45), or a character outside ASCII that Unicode counts as alphanumeric. The
  Unicode table is not part of the repository: it is the parameter \<open>alnum\<close>.
\<close>

definition is_word_or_hyphen :: "(int \<Rightarrow> bool) \<Rightarrow> int \<Rightarrow> bool" where
  "is_word_or_hyphen alnum c =
     ((48 \<le> c \<and> c \<le> 57) \<or> (65 \<le> c \<and> c \<le> 90) \<or> (97 \<le> c \<and> c \<le> 122) \<or> c = 95 \<or>
      c = 45 \<or> (128 \<le> c \<and> alnum c))"

text \<open>
  \<^verbatim>\<open>### @[\w-]+\<close> matched at the start of a string: the heading matched (the
  repetition is greedy) and the text after it.
\<close>

definition match_role_heading :: "(int \<Rightarrow> bool) \<Rightarrow> str \<Rightarrow> (str \<times> str) option" where
  "match_role_heading alnum s =
     (if startswith s (py ''### @'') \<and>
         takeWhile (is_word_or_hyphen alnum) (drop 5 s) \<noteq> []
      then Some (py ''### @'' @ takeWhile (is_word_or_hyphen alnum) (drop 5 s),
                 dropWhile (is_word_or_hyphen alnum) (drop 5 s))
      else None)"

lemma match_role_heading_parts:
  "match_role_heading alnum s = Some (h, rest) \<Longrightarrow> h @ rest = s \<and> length rest < length s"
proof -
  assume m: "match_role_heading alnum s = Some (h, rest)"
  have sw: "\<And>s p :: int list. startswith s p \<Longrightarrow> p @ drop (length p) s = s"
  proof -
    fix s p :: "int list"
    show "startswith s p \<Longrightarrow> p @ drop (length p) s = s"
      by (induction s p rule: startswith.induct) auto
  qed
  from m have st: "startswith s (py ''### @'')"
    and h: "h = py ''### @'' @ takeWhile (is_word_or_hyphen alnum) (drop 5 s)"
    and r: "rest = dropWhile (is_word_or_hyphen alnum) (drop 5 s)"
    by (auto simp: match_role_heading_def split: if_splits)
  from sw [OF st] have s5: "py ''### @'' @ drop 5 s = s"
    by (simp add: eval_nat_numeral)
  have "h @ rest = py ''### @'' @ drop 5 s" by (simp add: h r)
  with s5 have eq: "h @ rest = s" by simp
  have "0 < length h" using h by simp
  moreover have "length s = length h + length rest" using eq by (metis length_append)
  ultimately show ?thesis using eq by simp
qed

text \<open>
  \<^verbatim>\<open>re.split(r'(### @[\w-]+)', content)\<close>: the text before the first heading, then
  each heading followed by the text up to the next one. The pattern never matches the
  empty string, so the scan continues right after each heading.
\<close>

function re_split_roles :: "(int \<Rightarrow> bool) \<Rightarrow> str \<Rightarrow> str list" where
  "re_split_roles alnum [] = [[]]"
| "re_split_roles alnum (c # cs) =
     (case match_role_heading alnum (c # cs) of
        Some (h, rest) \<Rightarrow> [] # h # re_split_roles alnum rest
      | None \<Rightarrow>
          (case re_split_roles alnum cs of
             [] \<Rightarrow> [[c]]
           | piece # pieces \<Rightarrow> (c # piece) # pieces))"
  by pat_completeness auto
termination
  by (relation "measure (\<lambda>(alnum, s). length s)") (auto dest: match_role_heading_parts)

text \<open>
  \<^verbatim>\<open>re.search(r'@([\w-]+)', role_header).group(1)\<close>: the name after the first
  \<^verbatim>\<open>@\<close> (64) that a word character or hyphen follows. Without a match \<^verbatim>\<open>search\<close>
  returns \<^verbatim>\<open>None\<close>, and \<^verbatim>\<open>.group\<close> raises.
\<close>

fun re_search_role_name :: "(int \<Rightarrow> bool) \<Rightarrow> str \<Rightarrow> str option" where
  "re_search_role_name alnum [] = None"
| "re_search_role_name alnum (c # cs) =
     (if c = 64 \<and> takeWhile (is_word_or_hyphen alnum) cs \<noteq> []
      then Some (takeWhile (is_word_or_hyphen alnum) cs)
      else re_search_role_name alnum cs)"

datatype error =
    FileNotFoundError | IsADirectoryError | UnicodeDecodeError
  | TypeError | AttributeError | ValueError | IndexError

text \<open>
  The loop \<^verbatim>\<open>for i in range(1, len(role_sections), 2)\<close>, on the sections from index 1
  on: a heading and the body after it are taken together; a last heading without a
  body (\<^verbatim>\<open>i+1 < len(role_sections)\<close> fails) is skipped. \<open>enhance\<close> is what is done to
  a body; in the source it is \<^verbatim>\<open>add_missing_elements\<close>.
\<close>

fun migrate_pairs ::
    "(int \<Rightarrow> bool) \<Rightarrow> (str \<Rightarrow> str \<Rightarrow> str) \<Rightarrow> str list \<Rightarrow> error + str" where
  "migrate_pairs alnum enhance (role_header # role_content # sections) =
     (case re_search_role_name alnum role_header of
        None \<Rightarrow> Inl AttributeError
      | Some role_name \<Rightarrow>
          (case migrate_pairs alnum enhance sections of
             Inl e \<Rightarrow> Inl e
           | Inr migrated \<Rightarrow> Inr (role_header @ enhance role_content role_name @ migrated)))"
| "migrate_pairs alnum enhance sections = Inr []"

text \<open>\<^verbatim>\<open>migrated_content = role_sections[0]\<close>, then the loop.\<close>

definition migrate_sections ::
    "(int \<Rightarrow> bool) \<Rightarrow> (str \<Rightarrow> str \<Rightarrow> str) \<Rightarrow> str list \<Rightarrow> error + str" where
  "migrate_sections alnum enhance role_sections =
     (case role_sections of
        [] \<Rightarrow> Inl IndexError
      | header # sections \<Rightarrow>
          (case migrate_pairs alnum enhance sections of
             Inl e \<Rightarrow> Inl e
           | Inr migrated \<Rightarrow> Inr (header @ migrated)))"

text \<open>The text \<^verbatim>\<open>migrate_ai_roles_file\<close> writes back, from the text it read.\<close>

definition migrate_ai_roles_content :: "(int \<Rightarrow> bool) \<Rightarrow> str \<Rightarrow> error + str" where
  "migrate_ai_roles_content alnum content =
     migrate_sections alnum (\<lambda>role_content role_name. fst (add_missing_elements role_content role_name))
       (re_split_roles alnum content)"

subsection \<open>update_claude_md\<close>

text \<open>
  The text that \<^verbatim>\<open>update_claude_md\<close> writes back, as a function of the text it
  read. \<open>today\<close> is \<^verbatim>\<open>datetime.now().strftime('%Y-%m-%d')\<close>, an input of the model.
\<close>

definition migration_note :: "str \<Rightarrow> str" where
  "migration_note today =
     py ''\<newline>| role-template.md | Standardized template for all roles with interaction patterns | 1.0 | ''
       @ today @ py '' |''"

definition version_section :: "str \<Rightarrow> str" where
  "version_section today = concat
    [py ''\<newline>'',
     py ''## Version History\<newline>'',
     py ''- v1.3 ('' @ today
       @ py ''): Migrated all roles to standardized template with hierarchical interaction patterns'']"

definition update_claude_md_content :: "str \<Rightarrow> str \<Rightarrow> str" where
  "update_claude_md_content today content =
     (let content =
        (if \<not> str_in (py ''role-template.md'') content
         then replace content (py ''| VERSION | Current version'')
                (migration_note today @ py ''\<newline>| VERSION | Current version'')
         else content)
      in if \<not> str_in (py ''## Version History'') content
         then replace content (py ''# important-instruction-reminders'')
                (version_section today @ py ''\<newline>\<newline># important-instruction-reminders'')
         else content)"

section \<open>Files on disk\<close>

text \<open>
  Both programs read and write whole files by path. A path names a directory, a file
  whose bytes decode as UTF-8 (held as its text, line ends already translated to
  \<^verbatim>\<open>\n\<close> as Python's text mode does), or a file whose bytes do not decode. Paths are
  taken as the operating system resolves them; permissions are not modelled.
\<close>

datatype node = Directory | Text_file str | Binary_file

type_synonym filesystem = "str \<Rightarrow> node option"

text \<open>\<^verbatim>\<open>os.path.exists(p)\<close>\<close>

definition os_path_exists :: "filesystem \<Rightarrow> str \<Rightarrow> bool" where
  "os_path_exists fs p = (fs p \<noteq> None)"

text \<open>\<^verbatim>\<open>open(p, 'r', encoding='utf-8').read()\<close>\<close>

definition read_text :: "filesystem \<Rightarrow> str \<Rightarrow> error + str" where
  "read_text fs p =
     (case fs p of
        None \<Rightarrow> Inl FileNotFoundError
      | Some Directory \<Rightarrow> Inl IsADirectoryError
      | Some Binary_file \<Rightarrow> Inl UnicodeDecodeError
      | Some (Text_file t) \<Rightarrow> Inr t)"

text \<open>
  \<^verbatim>\<open>open(p, 'w', encoding='utf-8')\<close>: the file is created when it is missing and
  emptied when it exists; a directory cannot be opened for writing.
\<close>

definition open_w :: "filesystem \<Rightarrow> str \<Rightarrow> error + filesystem" where
  "open_w fs p =
     (case fs p of
        Some Directory \<Rightarrow> Inl IsADirectoryError
      | _ \<Rightarrow> Inr (fs(p \<mapsto> Text_file [])))"

text \<open>
  \<^verbatim>\<open>update_claude_md\<close> on the disk: read CLAUDE.md, compute the new text, write it
  back. Any error of the read or the write ends the run.
\<close>

definition update_claude_md :: "str \<Rightarrow> str \<Rightarrow> filesystem \<Rightarrow> error + filesystem" where
  "update_claude_md today file_path fs =
     (case read_text fs file_path of
        Inl e \<Rightarrow> Inl e
      | Inr content \<Rightarrow>
          (case open_w fs file_path of
             Inl e \<Rightarrow> Inl e
           | Inr fs' \<Rightarrow>
               Inr (fs'(file_path \<mapsto> Text_file (update_claude_md_content today content)))))"

section \<open>The file service (server.py)\<close>

subsection \<open>Previews, types and the listing\<close>

text \<open>\<^verbatim>\<open>f.readlines()\<close>: the text cut after every line feed.\<close>

fun readlines :: "str \<Rightarrow> str list" where
  "readlines [] = []"
| "readlines (c # cs) =
     (if c = 10 then [c] # readlines cs
      else (case readlines cs of [] \<Rightarrow> [[c]] | l # ls \<Rightarrow> (c # l) # ls))"

text \<open>\<^verbatim>\<open>line.strip()\<close>\<close>

definition strip :: "str \<Rightarrow> str" where
  "strip s = rev (dropWhile is_space (rev (dropWhile is_space s)))"

text \<open>
  The loop \<^verbatim>\<open>for line in lines[:10]\<close> of \<^verbatim>\<open>get_file_preview\<close>: the first line that
  qualifies returns; \<open>None\<close> when the loop ends without a return.
\<close>

fun preview_loop :: "str list \<Rightarrow> str option" where
  "preview_loop [] = None"
| "preview_loop (line # lines) =
     (let line = strip line in
      if line \<noteq> [] \<and> \<not> startswith line (py ''#'') \<and> length line > 20
      then Some (if length line > 80 then take 80 line @ py ''...'' else line)
      else preview_loop lines)"

definition get_file_preview :: "filesystem \<Rightarrow> str \<Rightarrow> str" where
  "get_file_preview fs file_path =
     (case read_text fs file_path of
        Inl e \<Rightarrow> py ''File preview not available''
      | Inr text \<Rightarrow>
          (case preview_loop (take 10 (readlines text)) of
             Some preview \<Rightarrow> preview
           | None \<Rightarrow> py ''Markdown documentation file''))"

definition get_file_type :: "str \<Rightarrow> str" where
  "get_file_type file_path =
     (if str_in (py ''AI-Roles.md'') file_path then py ''roles''
      else if startswith file_path (py ''.claude/commands/'') then py ''command''
      else if file_path \<in> set [py ''project-brief.md'', py ''mvp-requirements.md'',
                py ''architecture.md'', py ''pseudo-code.md'', py ''evidence-tests.md'']
        then py ''project''
      else py ''doc'')"

text \<open>\<^verbatim>\<open>os.path.basename(p)\<close>: what follows the last slash (47).\<close>

definition basename :: "str \<Rightarrow> str" where
  "basename p = rev (takeWhile (\<lambda>c. c \<noteq> 47) (rev p))"

text \<open>The dictionary \<^verbatim>\<open>file_info\<close>, keys \<^verbatim>\<open>name\<close>, \<^verbatim>\<open>path\<close>, \<^verbatim>\<open>type\<close>, \<^verbatim>\<open>preview\<close>.\<close>

record file_info =
  fi_name :: str
  fi_path :: str
  fi_type :: str
  fi_preview :: str

definition make_file_info :: "filesystem \<Rightarrow> str \<Rightarrow> file_info" where
  "make_file_info fs file_path =
     \<lparr>fi_name = basename file_path,
      fi_path = py ''/'' @ file_path,
      fi_type = get_file_type file_path,
      fi_preview = get_file_preview fs file_path\<rparr>"

text \<open>
  The dictionary \<^verbatim>\<open>categories\<close>: three lists, in the order the keys are inserted
  (Core Documentation, Project Files, Role Commands).
\<close>

record categories =
  core_documentation :: "file_info list"
  project_files :: "file_info list"
  role_commands :: "file_info list"

text \<open>
  \<^verbatim>\<open>glob.glob('**/*.md', recursive=True)\<close> scans the working directory:
  \<^verbatim>\<open>**\<close> stands for the directory itself and for every directory below it that is
  not hidden, and in each of them \<^verbatim>\<open>*.md\<close> matches the names that end with
  \<^verbatim>\<open>.md\<close> and are not hidden. A name is hidden when it starts with a dot (46);
  \<^verbatim>\<open>include_hidden\<close> is left at its default, \<^verbatim>\<open>False\<close>. The scan of the disk is an
  input of the model: \<open>entries\<close> lists the paths below the working directory, each
  relative to it with its names joined by slashes, in the order the scan yields them.
\<close>

text \<open>The names of a path: the text between the slashes (47).\<close>

fun components :: "str \<Rightarrow> str list" where
  "components [] = [[]]"
| "components (c # cs) =
     (if c = 47 then [] # components cs
      else (case components cs of [] \<Rightarrow> [[c]] | name # names \<Rightarrow> (c # name) # names))"

text \<open>\<^verbatim>\<open>glob._ishidden(name)\<close>\<close>

definition ishidden :: "str \<Rightarrow> bool" where
  "ishidden name = startswith name (py ''.'')"

text \<open>\<^verbatim>\<open>s.endswith(p)\<close>\<close>

definition endswith :: "'a list \<Rightarrow> 'a list \<Rightarrow> bool" where
  "endswith s p = startswith (rev s) (rev p)"

definition glob_md :: "str list \<Rightarrow> str list" where
  "glob_md entries =
     filter (\<lambda>p. \<not> list_ex ishidden (components p) \<and> endswith (basename p) (py ''.md''))
       entries"

text \<open>The loop over \<^verbatim>\<open>md_files\<close> of \<^verbatim>\<open>get_all_md_files\<close>.\<close>

fun categorize :: "filesystem \<Rightarrow> str list \<Rightarrow> categories \<Rightarrow> categories" where
  "categorize fs [] cats = cats"
| "categorize fs (file_path # md_files) cats =
     (if str_in (py ''node_modules'') file_path then categorize fs md_files cats
      else
        (let file_info = make_file_info fs file_path in
         if startswith file_path (py ''.claude/commands/'')
           then categorize fs md_files
                  (cats\<lparr>role_commands := role_commands cats @ [file_info]\<rparr>)
         else if file_path \<in> set [py ''README.md'', py ''CLAUDE.md'', py ''AI-Roles.md'',
                   py ''core-principles.md'', py ''CHANGELOG.md'']
           then categorize fs md_files
                  (cats\<lparr>core_documentation := core_documentation cats @ [file_info]\<rparr>)
         else categorize fs md_files
                (cats\<lparr>project_files := project_files cats @ [file_info]\<rparr>)))"

text \<open>One element of the result: the keys \<^verbatim>\<open>category\<close> and \<^verbatim>\<open>files\<close>.\<close>

record bucket =
  category :: str
  files :: "file_info list"

text \<open>
  The loop over \<^verbatim>\<open>categories.items()\<close>: an empty list is skipped, the others are
  sorted by \<^verbatim>\<open>name\<close>. Python's \<^verbatim>\<open>sorted\<close> is stable and compares strings code point
  by code point, as \<open>sort_key\<close> does with the lexicographic order on lists.
\<close>

fun convert :: "(str \<times> file_info list) list \<Rightarrow> bucket list" where
  "convert [] = []"
| "convert ((c, fs) # items) =
     (if fs \<noteq> [] then \<lparr>category = c, files = sort_key fi_name fs\<rparr> # convert items
      else convert items)"

definition get_all_md_files :: "filesystem \<Rightarrow> str list \<Rightarrow> bucket list" where
  "get_all_md_files fs entries =
     (let md_files = glob_md entries;
          cats = categorize fs md_files
                   \<lparr>core_documentation = [], project_files = [], role_commands = []\<rparr>
      in convert
           [(py ''Core Documentation'', core_documentation cats),
            (py ''Project Files'', project_files cats),
            (py ''Role Commands'', role_commands cats)])"

subsection \<open>The request handlers\<close>

text \<open>
  What a handler does is the list of calls it makes on the response, in order, the
  files it leaves on disk, and the exception that ended it, if one did. A handler that
  raises has sent what it sent before.
\<close>

datatype payload =
    Text str
  | Listing "bucket list"
  | File_bytes node

datatype event =
    Send_response nat
  | Send_header str str
  | End_headers
  | Wfile_write payload
  | Send_error nat
  | Super_do_GET

record outcome =
  sent :: "event list"
  disk :: filesystem
  raised :: "error option"

text \<open>
  The value \<^verbatim>\<open>json.loads\<close> returns; an object is its list of items, one per key.
\<close>

datatype json =
    JNull | JBool bool | JNumber int | JString str
  | JArray "json list" | JObject "(str \<times> json) list"

text \<open>\<^verbatim>\<open>data.get(key, default)\<close> on a dictionary\<close>

definition dict_get :: "(str \<times> json) list \<Rightarrow> str \<Rightarrow> json \<Rightarrow> json" where
  "dict_get items key dflt = (case map_of items key of Some v \<Rightarrow> v | None \<Rightarrow> dflt)"

text \<open>
  A POST request: \<^verbatim>\<open>self.path\<close>, and what the first three statements of the branch
  (\<^verbatim>\<open>int\<close> of the Content-Length header, the read of the body, \<^verbatim>\<open>json.loads\<close>) give:
  the decoded value or the exception one of them raised.
\<close>

record post_request =
  post_path :: str
  post_data :: "error + json"

definition do_POST :: "filesystem \<Rightarrow> post_request \<Rightarrow> outcome" where
  "do_POST fs req =
     (if post_path req = py ''/api/save'' then
        (case post_data req of
           Inl e \<Rightarrow> \<lparr>sent = [], disk = fs, raised = Some e\<rparr>
         | Inr (JObject items) \<Rightarrow>
             (case dict_get items (py ''path'') (JString []) of
                JString p \<Rightarrow>
                  (let file_path = py ''.'' @ p;
                       content = dict_get items (py ''content'') (JString [])
                   in if file_path \<noteq> [] \<and> os_path_exists fs file_path then
                        (case open_w fs file_path of
                           Inl e \<Rightarrow> \<lparr>sent = [], disk = fs, raised = Some e\<rparr>
                         | Inr fs' \<Rightarrow>
                             (case content of
                                JString text \<Rightarrow>
                                  \<lparr>sent = [Send_response 200,
                                           Send_header (py ''Content-type'') (py ''application/json''),
                                           End_headers,
                                           Wfile_write (Text (py ''{'' @ [34] @ py ''success'' @ [34] @ py '': true}''))],
                                   disk = fs'(file_path \<mapsto> Text_file text),
                                   raised = None\<rparr>
                              | _ \<Rightarrow> \<lparr>sent = [], disk = fs', raised = Some TypeError\<rparr>))
                      else \<lparr>sent = [Send_error 404], disk = fs, raised = None\<rparr>)
              | _ \<Rightarrow> \<lparr>sent = [], disk = fs, raised = Some TypeError\<rparr>)
         | Inr _ \<Rightarrow> \<lparr>sent = [], disk = fs, raised = Some AttributeError\<rparr>)
      else \<lparr>sent = [], disk = fs, raised = None\<rparr>)"

text \<open>
  A GET request after \<^verbatim>\<open>urlparse\<close> and \<^verbatim>\<open>parse_qs\<close>: the path and the query
  parameters, each key with its list of values.
\<close>

record get_request =
  url_path :: str
  query_params :: "(str \<times> str list) list"

definition serve_file :: "filesystem \<Rightarrow> str \<Rightarrow> outcome" where
  "serve_file fs filename =
     (let head = [Send_response 200, Send_header (py ''Content-type'') (py ''text/html''),
                  End_headers]
      in case fs filename of
           None \<Rightarrow> \<lparr>sent = head, disk = fs, raised = Some FileNotFoundError\<rparr>
         | Some Directory \<Rightarrow> \<lparr>sent = head, disk = fs, raised = Some IsADirectoryError\<rparr>
         | Some n \<Rightarrow> \<lparr>sent = head @ [Wfile_write (File_bytes n)], disk = fs, raised = None\<rparr>)"

text \<open>\<open>entries\<close> is the scan of the working directory that \<^verbatim>\<open>glob\<close> makes.\<close>

definition do_GET :: "filesystem \<Rightarrow> str list \<Rightarrow> get_request \<Rightarrow> outcome" where
  "do_GET fs entries req =
     (if url_path req = py ''/'' \<or> url_path req = py ''/role-editor-enhanced.html''
        then serve_file fs (py ''role-editor-enhanced.html'')
      else if url_path req = py ''/api/files''
        then \<lparr>sent = [Send_response 200,
                       Send_header (py ''Content-type'') (py ''application/json''),
                       End_headers,
                       Wfile_write (Listing (get_all_md_files fs entries))],
              disk = fs, raised = None\<rparr>
      else if url_path req = py ''/api/file''
        then
          (case (case map_of (query_params req) (py ''path'') of
                   Some vs \<Rightarrow> vs | None \<Rightarrow> [[]]) of
             [] \<Rightarrow> \<lparr>sent = [], disk = fs, raised = Some IndexError\<rparr>
           | file_path # _ \<Rightarrow>
               if file_path \<noteq> [] \<and> os_path_exists fs (py ''.'' @ file_path) then
                 (let head = [Send_response 200,
                              Send_header (py ''Content-type'') (py ''text/plain; charset=utf-8''),
                              End_headers]
                  in case read_text fs (py ''.'' @ file_path) of
                       Inl e \<Rightarrow> \<lparr>sent = head, disk = fs, raised = Some e\<rparr>
                     | Inr content \<Rightarrow>
                         \<lparr>sent = head @ [Wfile_write (Text content)], disk = fs, raised = None\<rparr>)
               else \<lparr>sent = [Send_error 404], disk = fs, raised = None\<rparr>)
      else \<lparr>sent = [Super_do_GET], disk = fs, raised = None\<rparr>)"

section \<open>Facts about the string operations\<close>

lemma startswith_iff: "startswith s p \<longleftrightarrow> (\<exists>t. s = p @ t)"
  by (induction s p rule: startswith.induct) auto

lemma str_in_iff: "str_in p s \<longleftrightarrow> (\<exists>a b. s = a @ p @ b)"
proof (induction s)
  case Nil
  then show ?case by auto
next
  case (Cons c cs)
  show ?case
  proof
    assume "str_in p (c # cs)"
    then consider "startswith (c # cs) p" | "str_in p cs" by auto
    then show "\<exists>a b. c # cs = a @ p @ b"
    proof cases
      case 1
      then obtain t where "c # cs = p @ t" by (auto simp: startswith_iff)
      then have "c # cs = [] @ p @ t" by simp
      then show ?thesis by blast
    next
      case 2
      with Cons obtain a b where "cs = a @ p @ b" by auto
      then have "c # cs = (c # a) @ p @ b" by simp
      then show ?thesis by blast
    qed
  next
    assume "\<exists>a b. c # cs = a @ p @ b"
    then obtain a b where ab: "c # cs = a @ p @ b" by auto
    show "str_in p (c # cs)"
    proof (cases a)
      case Nil
      with ab have "startswith (c # cs) p" by (auto simp: startswith_iff)
      then show ?thesis by simp
    next
      case (Cons x a')
      with ab have "cs = a' @ p @ b" by simp
      with Cons.IH have "str_in p cs" by blast
      then show ?thesis by simp
    qed
  qed
qed

lemma str_in_empty: "str_in [] s"
  by (cases s) auto

text \<open>Where \<open>old\<close> does not occur, \<^verbatim>\<open>replace\<close> returns its argument.\<close>

lemma replace_absent: "\<not> str_in old s \<Longrightarrow> replace s old new = s"
proof (induction s)
  case Nil
  then show ?case by auto
next
  case (Cons c cs)
  then have "old \<noteq> []" using str_in_empty by blast
  with Cons show ?case by auto
qed

section \<open>Properties of the migrator\<close>

subsection \<open>The top-level document and the split into roles\<close>

text \<open>
  C9. When neither anchor (the table row \<^verbatim>\<open>| VERSION | Current version\<close> and the
  heading \<^verbatim>\<open># important-instruction-reminders\<close>) occurs in the document and neither
  guard substring (\<^verbatim>\<open>role-template.md\<close>, \<^verbatim>\<open>## Version History\<close>) does, the text that
  \<^verbatim>\<open>update_claude_md\<close> writes is the text it read, and on a disk where the file holds
  that text the run ends without an error and leaves the disk as it was.
\<close>

theorem update_claude_md_silent_skip:
  assumes "\<not> str_in (py ''| VERSION | Current version'') content"
    and "\<not> str_in (py ''# important-instruction-reminders'') content"
    and "\<not> str_in (py ''role-template.md'') content"
    and "\<not> str_in (py ''## Version History'') content"
  shows "update_claude_md_content today content = content \<and>
         (fs file_path = Some (Text_file content) \<longrightarrow>
            update_claude_md today file_path fs = Inr fs)"
proof -
  have c: "update_claude_md_content today content = content"
    using assms by (simp add: update_claude_md_content_def Let_def replace_absent)
  have "update_claude_md today file_path fs = Inr fs"
    if "fs file_path = Some (Text_file content)"
  proof -
    have "fs(file_path \<mapsto> Text_file content) = fs"
      using that by (simp add: fun_upd_idem)
    then show ?thesis
      using that c by (simp add: update_claude_md_def read_text_def open_w_def)
  qed
  with c show ?thesis by blast
qed

theorem update_claude_md_silent_skip_witness:
  "\<not> str_in (py ''| VERSION | Current version'') (py ''# Notes\<newline>'') \<and>
   \<not> str_in (py ''# important-instruction-reminders'') (py ''# Notes\<newline>'') \<and>
   \<not> str_in (py ''role-template.md'') (py ''# Notes\<newline>'') \<and>
   \<not> str_in (py ''## Version History'') (py ''# Notes\<newline>'') \<and>
   update_claude_md_content (py ''2025-01-31'') (py ''# Notes\<newline>'') = py ''# Notes\<newline>'' \<and>
   update_claude_md (py ''2025-01-31'') (py ''CLAUDE.md'')
       (Map.empty(py ''CLAUDE.md'' \<mapsto> Text_file (py ''# Notes\<newline>'')))
     = Inr (Map.empty(py ''CLAUDE.md'' \<mapsto> Text_file (py ''# Notes\<newline>'')))"
proof -
  have h1: "\<not> str_in (py ''| VERSION | Current version'') (py ''# Notes\<newline>'')" by simp
  have h2: "\<not> str_in (py ''# important-instruction-reminders'') (py ''# Notes\<newline>'')" by simp
  have h3: "\<not> str_in (py ''role-template.md'') (py ''# Notes\<newline>'')" by simp
  have h4: "\<not> str_in (py ''## Version History'') (py ''# Notes\<newline>'')" by simp
  have h5: "(Map.empty(py ''CLAUDE.md'' \<mapsto> Text_file (py ''# Notes\<newline>''))) (py ''CLAUDE.md'')
              = Some (Text_file (py ''# Notes\<newline>''))" by simp
  from update_claude_md_silent_skip [OF h1 h2 h3 h4, of "py ''2025-01-31''"
         "Map.empty(py ''CLAUDE.md'' \<mapsto> Text_file (py ''# Notes\<newline>''))" "py ''CLAUDE.md''"]
       h1 h2 h3 h4 h5
  show ?thesis by blast
qed

text \<open>The pieces \<^verbatim>\<open>re.split\<close> returns are the document, cut.\<close>

lemma re_search_role_name_heading:
  assumes "name \<noteq> []" and "\<forall>c \<in> set name. is_word_or_hyphen alnum c"
  shows "re_search_role_name alnum (py ''### @'' @ name) = Some name"
proof -
  have tw: "takeWhile (is_word_or_hyphen alnum) name = name" using assms(2) by simp
  show ?thesis using assms(1) by (simp add: tw)
qed

lemma match_role_heading_name:
  assumes "match_role_heading alnum s = Some (h, rest)"
  shows "re_search_role_name alnum h \<noteq> None"
proof -
  let ?name = "takeWhile (is_word_or_hyphen alnum) (drop 5 s)"
  from assms have h: "h = py ''### @'' @ ?name" and ne: "?name \<noteq> []"
    by (auto simp: match_role_heading_def split: if_splits)
  have "\<forall>c \<in> set ?name. is_word_or_hyphen alnum c" by (meson set_takeWhileD)
  from re_search_role_name_heading [OF ne this] h show ?thesis by simp
qed

lemma migrate_pairs_identity:
  "\<exists>pre rest r. re_split_roles alnum s = pre # rest \<and>
      migrate_pairs alnum (\<lambda>role_content role_name. role_content) rest = Inr r \<and> pre @ r = s"
proof (induction alnum s rule: re_split_roles.induct)
  case (1 alnum)
  then show ?case by simp
next
  case (2 alnum c cs)
  show ?case
  proof (cases "match_role_heading alnum (c # cs)")
    case None
    from 2(1) [OF None] obtain pre rest r where
      "re_split_roles alnum cs = pre # rest"
      "migrate_pairs alnum (\<lambda>role_content role_name. role_content) rest = Inr r" "pre @ r = cs"
      by blast
    with None show ?thesis by simp
  next
    case (Some hr)
    obtain h rest' where hr: "hr = (h, rest')" by (cases hr)
    from Some hr have m: "match_role_heading alnum (c # cs) = Some (h, rest')" by simp
    from 2(2) [OF Some hr [symmetric]] obtain pre rest r where
      ih: "re_split_roles alnum rest' = pre # rest"
      "migrate_pairs alnum (\<lambda>role_content role_name. role_content) rest = Inr r" "pre @ r = rest'"
      by blast
    from match_role_heading_name [OF m] obtain n where n: "re_search_role_name alnum h = Some n"
      by auto
    from match_role_heading_parts [OF m] have "h @ rest' = c # cs" by simp
    with m ih n show ?thesis by simp
  qed
qed

text \<open>
  C4. Splitting a document at the role headings and putting the pieces back together
  in their order, no body changed, gives the document back, character for character:
  the loop of \<^verbatim>\<open>migrate_ai_roles_file\<close>, run with a body transformer that returns the
  body as it is, ends without an error with the original text. The pieces themselves
  are the document cut in place, and their number is odd, so no heading is left
  without its body.
\<close>

theorem split_reassemble_round_trip:
  "migrate_sections alnum (\<lambda>role_content role_name. role_content) (re_split_roles alnum content)
     = Inr content \<and>
   concat (re_split_roles alnum content) = content \<and>
   odd (length (re_split_roles alnum content))"
proof (intro conjI)
  from migrate_pairs_identity [of alnum content]
  show "migrate_sections alnum (\<lambda>role_content role_name. role_content)
          (re_split_roles alnum content) = Inr content"
    by (auto simp: migrate_sections_def)
next
  show "concat (re_split_roles alnum content) = content"
  proof (induction alnum content rule: re_split_roles.induct)
    case (1 alnum)
    then show ?case by simp
  next
    case (2 alnum c cs)
    then show ?case
      by (auto split: option.splits list.splits dest: match_role_heading_parts)
  qed
next
  show "odd (length (re_split_roles alnum content))"
  proof (induction alnum content rule: re_split_roles.induct)
    case (1 alnum)
    then show ?case by simp
  next
    case (2 alnum c cs)
    then show ?case by (auto split: option.splits list.splits)
  qed
qed

subsection \<open>The instrumentation step\<close>

lemmas step_defs = step_interaction_pattern_def step_standard_operating_procedures_def
  step_example_usage_def step_summary_confirmation_def step_instrumentation_def
  add_missing_elements_def

text \<open>
  C3. The code does not do what the claim says. The body below has the other four
  markers, an item 8 and an item 18, and no \<^verbatim>\<open>INSTRUMENTATION\<close>. The step is meant to
  add the instrumentation item once, in place of the line of item 8. But the pattern
  \<^verbatim>\<open>8\.\s+.*\<close> is not anchored to the start of a line and \<^verbatim>\<open>re.sub\<close> is given no
  count, so it also matches inside \<^verbatim>\<open>18. Release\<close>: that line becomes \<^verbatim>\<open>1\<close> followed by
  the bullet, and the bullet is inserted twice. The result is not the body with only
  the line of item 8 rewritten.
\<close>

theorem instrumentation_rewrites_item_18_too:
  "fst (add_missing_elements
     (py ''## Interactive Session Structure\<newline>## Standard Operating Procedures\<newline>## Example Usage\<newline>SUMMARY & CONFIRMATION\<newline>8. Testing\<newline>18. Release\<newline>'')
     (py ''coder''))
   = py ''## Interactive Session Structure\<newline>## Standard Operating Procedures\<newline>## Example Usage\<newline>SUMMARY & CONFIRMATION\<newline>''
     @ instrumentation_text @ py ''\<newline>9. \<newline>1'' @ instrumentation_text @ py ''\<newline>9. \<newline>'' \<and>
   fst (add_missing_elements
     (py ''## Interactive Session Structure\<newline>## Standard Operating Procedures\<newline>## Example Usage\<newline>SUMMARY & CONFIRMATION\<newline>8. Testing\<newline>18. Release\<newline>'')
     (py ''coder''))
   \<noteq> py ''## Interactive Session Structure\<newline>## Standard Operating Procedures\<newline>## Example Usage\<newline>SUMMARY & CONFIRMATION\<newline>''
     @ instrumentation_text @ py ''\<newline>9. \<newline>18. Release\<newline>''"
  by (simp add: step_defs is_space_def instrumentation_text_def)

subsection \<open>Two runs, and the marker of the summary block\<close>

text \<open>
  C1. Idempotence fails on the code. The body below has the other four markers and
  an empty item 8 right above the heading of the interaction section. The first run
  only rewrites item 8, and the match of \<^verbatim>\<open>8\.\s+.*\<close> runs over the line break and
  takes the heading line with it. The second run no longer finds
  \<^verbatim>\<open>## Interactive Session Structure\<close> and appends the whole interaction pattern: the
  two results differ.
\<close>

theorem add_missing_elements_second_run_differs:
  "fst (add_missing_elements
     (py ''## Standard Operating Procedures\<newline>## Example Usage\<newline>SUMMARY & CONFIRMATION\<newline>8. \<newline>## Interactive Session Structure\<newline>Ask one question at a time.\<newline>'')
     (py ''coder''))
   = py ''## Standard Operating Procedures\<newline>## Example Usage\<newline>SUMMARY & CONFIRMATION\<newline>''
     @ instrumentation_text @ py ''\<newline>9. \<newline>Ask one question at a time.\<newline>'' \<and>
   fst (add_missing_elements
     (fst (add_missing_elements
        (py ''## Standard Operating Procedures\<newline>## Example Usage\<newline>SUMMARY & CONFIRMATION\<newline>8. \<newline>## Interactive Session Structure\<newline>Ask one question at a time.\<newline>'')
        (py ''coder'')))
     (py ''coder''))
   = py ''## Standard Operating Procedures\<newline>## Example Usage\<newline>SUMMARY & CONFIRMATION\<newline>''
     @ instrumentation_text @ py ''\<newline>9. \<newline>Ask one question at a time.\<newline>''
     @ py ''\<newline>'' @ pattern_default \<and>
   fst (add_missing_elements
     (fst (add_missing_elements
        (py ''## Standard Operating Procedures\<newline>## Example Usage\<newline>SUMMARY & CONFIRMATION\<newline>8. \<newline>## Interactive Session Structure\<newline>Ask one question at a time.\<newline>'')
        (py ''coder'')))
     (py ''coder''))
   \<noteq> fst (add_missing_elements
     (py ''## Standard Operating Procedures\<newline>## Example Usage\<newline>SUMMARY & CONFIRMATION\<newline>8. \<newline>## Interactive Session Structure\<newline>Ask one question at a time.\<newline>'')
     (py ''coder''))"
proof -
  have run1: "fst (add_missing_elements
     (py ''## Standard Operating Procedures\<newline>## Example Usage\<newline>SUMMARY & CONFIRMATION\<newline>8. \<newline>## Interactive Session Structure\<newline>Ask one question at a time.\<newline>'')
     (py ''coder''))
   = py ''## Standard Operating Procedures\<newline>## Example Usage\<newline>SUMMARY & CONFIRMATION\<newline>''
     @ instrumentation_text @ py ''\<newline>9. \<newline>Ask one question at a time.\<newline>''"
    by (simp add: step_defs is_space_def)
  have run2: "fst (add_missing_elements
     (py ''## Standard Operating Procedures\<newline>## Example Usage\<newline>SUMMARY & CONFIRMATION\<newline>''
       @ instrumentation_text @ py ''\<newline>9. \<newline>Ask one question at a time.\<newline>'')
     (py ''coder''))
   = py ''## Standard Operating Procedures\<newline>## Example Usage\<newline>SUMMARY & CONFIRMATION\<newline>''
     @ instrumentation_text @ py ''\<newline>9. \<newline>Ask one question at a time.\<newline>''
     @ py ''\<newline>'' @ pattern_default"
    by (simp add: step_defs is_space_def instrumentation_text_def add_interaction_pattern_def
          question_structures_def)
  show ?thesis unfolding run1 run2 by simp
qed

text \<open>
  C2. The summary block is not placed before every \<^verbatim>\<open>WORKFLOW EVALUATION\<close> marker.
  The guard of the step tests for \<^verbatim>\<open>WORKFLOW EVALUATION\<close>, the replacement looks for
  \<^verbatim>\<open>13. WORKFLOW EVALUATION\<close>. On the body below, which has the first three sections
  and the marker as a heading, the step inserts nothing and still records
  \<^verbatim>\<open>summary_confirmation\<close>: the body comes back as it was, without the block. The
  same body with the marker written \<^verbatim>\<open>13. WORKFLOW EVALUATION\<close> gets the block right
  before the marker.
\<close>

theorem summary_confirmation_lost_at_unnumbered_marker:
  "str_in (py ''WORKFLOW EVALUATION'')
     (py ''## Interactive Session Structure\<newline>## Standard Operating Procedures\<newline>## Example Usage\<newline>### WORKFLOW EVALUATION\<newline>Review the workflow after each session.\<newline>'') \<and>
   add_missing_elements
     (py ''## Interactive Session Structure\<newline>## Standard Operating Procedures\<newline>## Example Usage\<newline>### WORKFLOW EVALUATION\<newline>Review the workflow after each session.\<newline>'')
     (py ''coder'')
   = (py ''## Interactive Session Structure\<newline>## Standard Operating Procedures\<newline>## Example Usage\<newline>### WORKFLOW EVALUATION\<newline>Review the workflow after each session.\<newline>'',
      [py ''summary_confirmation'']) \<and>
   \<not> str_in (py ''SUMMARY & CONFIRMATION'')
     (fst (add_missing_elements
       (py ''## Interactive Session Structure\<newline>## Standard Operating Procedures\<newline>## Example Usage\<newline>### WORKFLOW EVALUATION\<newline>Review the workflow after each session.\<newline>'')
       (py ''coder''))) \<and>
   add_missing_elements
     (py ''## Interactive Session Structure\<newline>## Standard Operating Procedures\<newline>## Example Usage\<newline>13. WORKFLOW EVALUATION\<newline>Review the workflow after each session.\<newline>'')
     (py ''coder'')
   = (py ''## Interactive Session Structure\<newline>## Standard Operating Procedures\<newline>## Example Usage\<newline>''
        @ confirmation_text
        @ py ''\<newline>13. WORKFLOW EVALUATION\<newline>Review the workflow after each session.\<newline>'',
      [py ''summary_confirmation''])"
proof -
  let ?unnumbered = "py ''## Interactive Session Structure\<newline>## Standard Operating Procedures\<newline>## Example Usage\<newline>### WORKFLOW EVALUATION\<newline>Review the workflow after each session.\<newline>''"
  let ?numbered = "py ''## Interactive Session Structure\<newline>## Standard Operating Procedures\<newline>## Example Usage\<newline>13. WORKFLOW EVALUATION\<newline>Review the workflow after each session.\<newline>''"
  let ?inserted = "py ''## Interactive Session Structure\<newline>## Standard Operating Procedures\<newline>## Example Usage\<newline>''
        @ confirmation_text
        @ py ''\<newline>13. WORKFLOW EVALUATION\<newline>Review the workflow after each session.\<newline>''"
  have marker: "str_in (py ''WORKFLOW EVALUATION'') ?unnumbered" by simp
  have run: "add_missing_elements ?unnumbered (py ''coder'')
      = (?unnumbered, [py ''summary_confirmation''])"
    by (simp add: step_defs)
  have none: "\<not> str_in (py ''SUMMARY & CONFIRMATION'') ?unnumbered" by simp
  have three: "step_example_usage (py ''coder'')
      (step_standard_operating_procedures (py ''coder'')
        (step_interaction_pattern (py ''coder'') (?numbered, []))) = (?numbered, [])"
    by (simp add: step_interaction_pattern_def step_standard_operating_procedures_def
          step_example_usage_def)
  have four: "step_summary_confirmation (?numbered, [])
      = (?inserted, [py ''summary_confirmation''])"
    by (simp add: step_summary_confirmation_def)
  have five: "step_instrumentation (?inserted, [py ''summary_confirmation''])
      = (?inserted, [py ''summary_confirmation''])"
    by (simp add: step_instrumentation_def confirmation_text_def)
  have sibling: "add_missing_elements ?numbered (py ''coder'')
      = (?inserted, [py ''summary_confirmation''])"
    unfolding add_missing_elements_def three four five ..
  have lost: "\<not> str_in (py ''SUMMARY & CONFIRMATION'')
      (fst (add_missing_elements ?unnumbered (py ''coder'')))"
    unfolding run fst_conv by (rule none)
  show ?thesis by (intro conjI marker run lost sibling)
qed

section \<open>Properties of the file service\<close>

subsection \<open>The handlers\<close>

lemma do_POST_dom: "dom (disk (do_POST fs req)) = dom fs"
  by (auto simp: do_POST_def Let_def os_path_exists_def open_w_def
           split: sum.splits json.splits option.splits node.splits if_splits)

text \<open>
  C10. A POST whose path is not exactly \<^verbatim>\<open>/api/save\<close> gets no response at all:
  \<^verbatim>\<open>do_POST\<close> has no other branch, so it returns having sent nothing, written nothing
  and raised nothing.
\<close>

theorem do_POST_other_path_silent:
  "post_path req \<noteq> py ''/api/save'' \<Longrightarrow>
   do_POST fs req = \<lparr>sent = [], disk = fs, raised = None\<rparr>"
  by (simp add: do_POST_def)

theorem do_POST_other_path_silent_witness:
  "post_path \<lparr>post_path = py ''/api/save?x=1'', post_data = Inr (JObject [])\<rparr>
     \<noteq> py ''/api/save'' \<and>
   do_POST Map.empty \<lparr>post_path = py ''/api/save?x=1'', post_data = Inr (JObject [])\<rparr>
     = \<lparr>sent = [], disk = Map.empty, raised = None\<rparr>"
  using do_POST_other_path_silent
    [of "\<lparr>post_path = py ''/api/save?x=1'', post_data = Inr (JObject [])\<rparr>" Map.empty]
  by simp

text \<open>
  C5. \<^verbatim>\<open>GET /api/file?path=P\<close> where \<^verbatim>\<open>.P\<close> does not exist is answered 404;
  \<^verbatim>\<open>POST /api/save\<close> whose JSON path names a file that does not exist is answered 404
  and leaves the disk as it was; and no POST, whatever it holds, creates a file: the
  paths that exist afterwards are those that existed before.
\<close>

theorem service_404_and_no_creation:
  "(url_path g = py ''/api/file'' \<and> map_of (query_params g) (py ''path'') = Some (P # vs) \<and>
      \<not> os_path_exists fs (py ''.'' @ P)
      \<longrightarrow> do_GET fs entries g = \<lparr>sent = [Send_error 404], disk = fs, raised = None\<rparr>) \<and>
   (post_path r = py ''/api/save'' \<and> post_data r = Inr (JObject items) \<and>
      map_of items (py ''path'') = Some (JString p) \<and> \<not> os_path_exists fs (py ''.'' @ p)
      \<longrightarrow> do_POST fs r = \<lparr>sent = [Send_error 404], disk = fs, raised = None\<rparr>) \<and>
   dom (disk (do_POST fs r')) = dom fs"
proof (intro conjI impI)
  assume "url_path g = py ''/api/file'' \<and>
      map_of (query_params g) (py ''path'') = Some (P # vs) \<and>
      \<not> os_path_exists fs (py ''.'' @ P)"
  then show "do_GET fs entries g = \<lparr>sent = [Send_error 404], disk = fs, raised = None\<rparr>"
    by (simp add: do_GET_def)
next
  assume "post_path r = py ''/api/save'' \<and> post_data r = Inr (JObject items) \<and>
      map_of items (py ''path'') = Some (JString p) \<and> \<not> os_path_exists fs (py ''.'' @ p)"
  then show "do_POST fs r = \<lparr>sent = [Send_error 404], disk = fs, raised = None\<rparr>"
    by (simp add: do_POST_def dict_get_def)
next
  show "dom (disk (do_POST fs r')) = dom fs" by (rule do_POST_dom)
qed

theorem service_404_and_no_creation_witness:
  "(url_path \<lparr>url_path = py ''/api/file'',
               query_params = [(py ''path'', [py ''/nonexistent.md''])]\<rparr> = py ''/api/file'' \<and>
    map_of (query_params \<lparr>url_path = py ''/api/file'',
               query_params = [(py ''path'', [py ''/nonexistent.md''])]\<rparr>) (py ''path'')
      = Some (py ''/nonexistent.md'' # []) \<and>
    \<not> os_path_exists (Map.empty(py ''./a.md'' \<mapsto> Text_file (py ''old'')))
         (py ''.'' @ py ''/nonexistent.md'')) \<and>
   do_GET (Map.empty(py ''./a.md'' \<mapsto> Text_file (py ''old''))) []
      \<lparr>url_path = py ''/api/file'', query_params = [(py ''path'', [py ''/nonexistent.md''])]\<rparr>
     = \<lparr>sent = [Send_error 404],
        disk = Map.empty(py ''./a.md'' \<mapsto> Text_file (py ''old'')), raised = None\<rparr> \<and>
   do_POST (Map.empty(py ''./a.md'' \<mapsto> Text_file (py ''old'')))
      \<lparr>post_path = py ''/api/save'',
       post_data = Inr (JObject [(py ''path'', JString (py ''/nonexistent.md'')),
                                 (py ''content'', JString (py ''new''))])\<rparr>
     = \<lparr>sent = [Send_error 404],
        disk = Map.empty(py ''./a.md'' \<mapsto> Text_file (py ''old'')), raised = None\<rparr> \<and>
   dom (disk (do_POST (Map.empty(py ''./a.md'' \<mapsto> Text_file (py ''old'')))
      \<lparr>post_path = py ''/api/save'',
       post_data = Inr (JObject [(py ''path'', JString (py ''/a.md'')),
                                 (py ''content'', JString (py ''new''))])\<rparr>))
     = dom (Map.empty(py ''./a.md'' \<mapsto> Text_file (py ''old'')))"
  using service_404_and_no_creation
    [of "\<lparr>url_path = py ''/api/file'',
           query_params = [(py ''path'', [py ''/nonexistent.md''])]\<rparr>"
        "py ''/nonexistent.md''" "[]"
        "Map.empty(py ''./a.md'' \<mapsto> Text_file (py ''old''))" "[]"
        "\<lparr>post_path = py ''/api/save'',
          post_data = Inr (JObject [(py ''path'', JString (py ''/nonexistent.md'')),
                                    (py ''content'', JString (py ''new''))])\<rparr>"
        "[(py ''path'', JString (py ''/nonexistent.md'')), (py ''content'', JString (py ''new''))]"
        "py ''/nonexistent.md''"
        "\<lparr>post_path = py ''/api/save'',
          post_data = Inr (JObject [(py ''path'', JString (py ''/a.md'')),
                                    (py ''content'', JString (py ''new''))])\<rparr>"]
  by (simp add: os_path_exists_def)

text \<open>
  C6. A \<^verbatim>\<open>POST /api/save\<close> whose JSON object lacks \<^verbatim>\<open>path\<close> or \<^verbatim>\<open>content\<close> is handled
  exactly as the request that holds the empty string under that key: nothing checks
  the shape of the body. So a request without \<^verbatim>\<open>content\<close> that names an existing text
  file empties the file and is answered 200, and a request without \<^verbatim>\<open>path\<close> is the
  request for the path \<^verbatim>\<open>.\<close>.
\<close>

theorem missing_keys_default_to_empty:
  "(map_of items (py ''path'') = None \<longrightarrow>
      do_POST fs \<lparr>post_path = pth, post_data = Inr (JObject items)\<rparr>
      = do_POST fs \<lparr>post_path = pth,
                     post_data = Inr (JObject ((py ''path'', JString []) # items))\<rparr>) \<and>
   (map_of items (py ''content'') = None \<longrightarrow>
      do_POST fs \<lparr>post_path = pth, post_data = Inr (JObject items)\<rparr>
      = do_POST fs \<lparr>post_path = pth,
                     post_data = Inr (JObject ((py ''content'', JString []) # items))\<rparr>) \<and>
   (map_of items (py ''content'') = None \<and> map_of items (py ''path'') = Some (JString p) \<and>
    fs (py ''.'' @ p) = Some (Text_file old) \<longrightarrow>
      do_POST fs \<lparr>post_path = py ''/api/save'', post_data = Inr (JObject items)\<rparr>
      = \<lparr>sent = [Send_response 200,
                  Send_header (py ''Content-type'') (py ''application/json''),
                  End_headers,
                  Wfile_write (Text (py ''{'' @ [34] @ py ''success'' @ [34] @ py '': true}''))],
         disk = fs(py ''.'' @ p \<mapsto> Text_file []), raised = None\<rparr>) \<and>
   (map_of items (py ''path'') = None \<and> fs (py ''.'') = Some Directory \<longrightarrow>
      do_POST fs \<lparr>post_path = py ''/api/save'', post_data = Inr (JObject items)\<rparr>
      = \<lparr>sent = [], disk = fs, raised = Some IsADirectoryError\<rparr>)"
  by (auto simp: do_POST_def dict_get_def Let_def os_path_exists_def open_w_def
           split: json.splits option.splits)

theorem missing_keys_default_to_empty_witness:
  "map_of [(py ''path'', JString (py ''/a.md''))] (py ''content'') = None \<and>
   map_of [(py ''path'', JString (py ''/a.md''))] (py ''path'') = Some (JString (py ''/a.md'')) \<and>
   (Map.empty(py ''./a.md'' \<mapsto> Text_file (py ''old''))) (py ''.'' @ py ''/a.md'')
     = Some (Text_file (py ''old'')) \<and>
   do_POST (Map.empty(py ''./a.md'' \<mapsto> Text_file (py ''old'')))
      \<lparr>post_path = py ''/api/save'',
       post_data = Inr (JObject [(py ''path'', JString (py ''/a.md''))])\<rparr>
     = \<lparr>sent = [Send_response 200,
                 Send_header (py ''Content-type'') (py ''application/json''),
                 End_headers,
                 Wfile_write (Text (py ''{'' @ [34] @ py ''success'' @ [34] @ py '': true}''))],
        disk = (Map.empty(py ''./a.md'' \<mapsto> Text_file (py ''old'')))
                 (py ''.'' @ py ''/a.md'' \<mapsto> Text_file []),
        raised = None\<rparr>"
proof -
  let ?items = "[(py ''path'', JString (py ''/a.md''))]"
  let ?fs = "Map.empty(py ''./a.md'' \<mapsto> Text_file (py ''old''))"
  have h1: "map_of ?items (py ''content'') = None" by simp
  have h2: "map_of ?items (py ''path'') = Some (JString (py ''/a.md''))" by simp
  have h3: "?fs (py ''.'' @ py ''/a.md'') = Some (Text_file (py ''old''))" by simp
  from missing_keys_default_to_empty
         [of ?items ?fs "py ''/api/save''" "py ''/a.md''" "py ''old''"] h1 h2 h3
  show ?thesis by blast
qed

subsection \<open>Previews\<close>

text \<open>The loop returns at the first line that qualifies.\<close>

lemma preview_loop_none:
  "\<forall>line \<in> set ls. strip line = [] \<or> startswith (strip line) (py ''#'') \<Longrightarrow>
   preview_loop ls = None"
  by (induction ls) (auto simp: Let_def)

lemma preview_loop_first:
  assumes "i < length ls"
    and "\<forall>j<i. \<not> (strip (ls ! j) \<noteq> [] \<and> \<not> startswith (strip (ls ! j)) (py ''#'') \<and>
                    20 < length (strip (ls ! j)))"
    and "strip (ls ! i) \<noteq> [] \<and> \<not> startswith (strip (ls ! i)) (py ''#'') \<and>
         20 < length (strip (ls ! i))"
  shows "preview_loop ls =
           Some (if 80 < length (strip (ls ! i)) then take 80 (strip (ls ! i)) @ py ''...''
                 else strip (ls ! i))"
  using assms
proof (induction ls arbitrary: i)
  case Nil
  then show ?case by simp
next
  case (Cons l ls)
  show ?case
  proof (cases i)
    case 0
    with Cons.prems(3) show ?thesis by (simp add: Let_def)
  next
    case (Suc k)
    from Cons.prems(2) Suc have l: "\<not> (strip l \<noteq> [] \<and> \<not> startswith (strip l) (py ''#'') \<and>
        20 < length (strip l))"
      by (metis nth_Cons_0 zero_less_Suc)
    have "k < length ls" using Cons.prems(1) Suc by simp
    moreover have "\<forall>j<k. \<not> (strip (ls ! j) \<noteq> [] \<and> \<not> startswith (strip (ls ! j)) (py ''#'') \<and>
        20 < length (strip (ls ! j)))"
    proof (intro allI impI)
      fix j assume "j < k"
      then have "Suc j < i" using Suc by simp
      with Cons.prems(2) show "\<not> (strip (ls ! j) \<noteq> [] \<and>
          \<not> startswith (strip (ls ! j)) (py ''#'') \<and> 20 < length (strip (ls ! j)))"
        by (metis nth_Cons_Suc)
    qed
    moreover have "strip (ls ! k) \<noteq> [] \<and> \<not> startswith (strip (ls ! k)) (py ''#'') \<and>
        20 < length (strip (ls ! k))"
      using Cons.prems(3) Suc by simp
    ultimately have "preview_loop ls =
        Some (if 80 < length (strip (ls ! k)) then take 80 (strip (ls ! k)) @ py ''...''
              else strip (ls ! k))"
      by (rule Cons.IH)
    with l Suc show ?thesis by (auto simp: Let_def)
  qed
qed

text \<open>
  C7. \<^verbatim>\<open>get_file_preview\<close>: when each of the first ten lines is blank or a heading
  (empty after \<^verbatim>\<open>strip\<close>, or starting with \<^verbatim>\<open>#\<close>), the preview is the fallback
  \<^verbatim>\<open>Markdown documentation file\<close>; when the first qualifying line among the first ten
  (not empty after \<^verbatim>\<open>strip\<close>, not starting with \<^verbatim>\<open>#\<close>, longer than 20 characters) has
  90 characters after \<^verbatim>\<open>strip\<close>, the preview is its first 80 characters followed by
  \<^verbatim>\<open>...\<close>; and when the file cannot be read, whatever the error, the preview is
  \<^verbatim>\<open>File preview not available\<close>.
\<close>

theorem get_file_preview_cases:
  "(read_text fs p = Inr text \<and>
    (\<forall>line \<in> set (take 10 (readlines text)).
        strip line = [] \<or> startswith (strip line) (py ''#''))
    \<longrightarrow> get_file_preview fs p = py ''Markdown documentation file'') \<and>
   (read_text fs p = Inr text \<and> i < 10 \<and> i < length (readlines text) \<and>
    (\<forall>j<i. \<not> (strip (readlines text ! j) \<noteq> [] \<and>
               \<not> startswith (strip (readlines text ! j)) (py ''#'') \<and>
               20 < length (strip (readlines text ! j)))) \<and>
    \<not> startswith (strip (readlines text ! i)) (py ''#'') \<and>
    length (strip (readlines text ! i)) = 90
    \<longrightarrow> get_file_preview fs p = take 80 (strip (readlines text ! i)) @ py ''...'') \<and>
   (read_text fs p = Inl e \<longrightarrow> get_file_preview fs p = py ''File preview not available'')"
proof (intro conjI impI)
  assume "read_text fs p = Inr text \<and>
    (\<forall>line \<in> set (take 10 (readlines text)).
        strip line = [] \<or> startswith (strip line) (py ''#''))"
  then show "get_file_preview fs p = py ''Markdown documentation file''"
    by (simp add: get_file_preview_def preview_loop_none)
next
  let ?ls = "take 10 (readlines text)"
  assume a: "read_text fs p = Inr text \<and> i < 10 \<and> i < length (readlines text) \<and>
    (\<forall>j<i. \<not> (strip (readlines text ! j) \<noteq> [] \<and>
               \<not> startswith (strip (readlines text ! j)) (py ''#'') \<and>
               20 < length (strip (readlines text ! j)))) \<and>
    \<not> startswith (strip (readlines text ! i)) (py ''#'') \<and>
    length (strip (readlines text ! i)) = 90"
  then have i: "i < length ?ls" by simp
  have nth: "?ls ! j = readlines text ! j" if "j \<le> i" for j
    using that a by simp
  have before: "\<forall>j<i. \<not> (strip (?ls ! j) \<noteq> [] \<and> \<not> startswith (strip (?ls ! j)) (py ''#'') \<and>
      20 < length (strip (?ls ! j)))"
    using a nth by (metis less_imp_le)
  have len: "length (strip (?ls ! i)) = 90" using a nth by simp
  have "strip (?ls ! i) \<noteq> []" using len by auto
  moreover have "20 < length (strip (?ls ! i))" using len by simp
  moreover have "\<not> startswith (strip (?ls ! i)) (py ''#'')" using a nth [of i] by simp
  ultimately have here: "strip (?ls ! i) \<noteq> [] \<and> \<not> startswith (strip (?ls ! i)) (py ''#'') \<and>
      20 < length (strip (?ls ! i))" by blast
  from preview_loop_first [OF i before here] len
  have "preview_loop ?ls = Some (take 80 (strip (?ls ! i)) @ py ''...'')" by simp
  with a nth show "get_file_preview fs p = take 80 (strip (readlines text ! i)) @ py ''...''"
    by (simp add: get_file_preview_def)
next
  assume "read_text fs p = Inl e"
  then show "get_file_preview fs p = py ''File preview not available''"
    by (simp add: get_file_preview_def)
qed

theorem get_file_preview_cases_witness:
  "get_file_preview
     (Map.empty(py ''README.md'' \<mapsto> Text_file (py ''# Title\<newline>\<newline>## Section\<newline>'')))
     (py ''README.md'') = py ''Markdown documentation file'' \<and>
   length (strip (readlines (py ''# Title\<newline>\<newline>  This line of the file is exactly ninety characters long, so the preview cuts it at eighty.  \<newline>more\<newline>'') ! 2)) = 90 \<and>
   get_file_preview
     (Map.empty(py ''notes.md'' \<mapsto> Text_file (py ''# Title\<newline>\<newline>  This line of the file is exactly ninety characters long, so the preview cuts it at eighty.  \<newline>more\<newline>'')))
     (py ''notes.md'')
     = py ''This line of the file is exactly ninety characters long, so the preview cuts it ...'' \<and>
   get_file_preview Map.empty (py ''gone.md'') = py ''File preview not available''"
proof -
  let ?tA = "py ''# Title\<newline>\<newline>## Section\<newline>''"
  let ?fsA = "Map.empty(py ''README.md'' \<mapsto> Text_file ?tA)"
  let ?tB = "py ''# Title\<newline>\<newline>  This line of the file is exactly ninety characters long, so the preview cuts it at eighty.  \<newline>more\<newline>''"
  let ?fsB = "Map.empty(py ''notes.md'' \<mapsto> Text_file ?tB)"
  have linesA: "readlines ?tA = [py ''# Title\<newline>'', py ''\<newline>'', py ''## Section\<newline>'']"
    by simp
  have hA: "read_text ?fsA (py ''README.md'') = Inr ?tA \<and>
      (\<forall>line \<in> set (take 10 (readlines ?tA)).
          strip line = [] \<or> startswith (strip line) (py ''#''))"
    unfolding linesA by (simp add: read_text_def strip_def is_space_def)
  have linesB: "readlines ?tB = [py ''# Title\<newline>'', py ''\<newline>'',
      py ''  This line of the file is exactly ninety characters long, so the preview cuts it at eighty.  \<newline>'',
      py ''more\<newline>'']"
    by simp
  have hB: "read_text ?fsB (py ''notes.md'') = Inr ?tB \<and> (2::nat) < 10 \<and>
      2 < length (readlines ?tB) \<and>
      (\<forall>j<2. \<not> (strip (readlines ?tB ! j) \<noteq> [] \<and>
                 \<not> startswith (strip (readlines ?tB ! j)) (py ''#'') \<and>
                 20 < length (strip (readlines ?tB ! j)))) \<and>
      \<not> startswith (strip (readlines ?tB ! 2)) (py ''#'') \<and>
      length (strip (readlines ?tB ! 2)) = 90"
    unfolding linesB
    by (simp add: read_text_def numeral_2_eq_2 All_less_Suc strip_def is_space_def)
  have hC: "read_text Map.empty (py ''gone.md'') = Inl FileNotFoundError"
    by (simp add: read_text_def)
  have A: "get_file_preview ?fsA (py ''README.md'') = py ''Markdown documentation file''"
    using get_file_preview_cases [of ?fsA "py ''README.md''" ?tA] hA by blast
  have B: "get_file_preview ?fsB (py ''notes.md'')
      = take 80 (strip (readlines ?tB ! 2)) @ py ''...''"
    using get_file_preview_cases [of ?fsB "py ''notes.md''" ?tB 2] hB by blast
  have C: "get_file_preview Map.empty (py ''gone.md'') = py ''File preview not available''"
    using get_file_preview_cases [of Map.empty "py ''gone.md''" _ _ FileNotFoundError] hC
    by blast
  have B': "take 80 (strip (readlines ?tB ! 2)) @ py ''...''
      = py ''This line of the file is exactly ninety characters long, so the preview cuts it ...''"
    unfolding linesB by (simp add: strip_def is_space_def)
  have len: "length (strip (readlines ?tB ! 2)) = 90" using hB by blast
  from A B C B' len show ?thesis by simp
qed

subsection \<open>The listing\<close>

text \<open>
  The loop of \<^verbatim>\<open>get_all_md_files\<close> appends each path that is kept to one list: the
  three lists are the kept paths, in their order, told apart by the two tests.
\<close>

lemma categorize_lists:
  "role_commands (categorize fs ms cats) =
     role_commands cats @
     map (make_file_info fs)
       (filter (\<lambda>p. \<not> str_in (py ''node_modules'') p \<and> startswith p (py ''.claude/commands/'')) ms)"
  "core_documentation (categorize fs ms cats) =
     core_documentation cats @
     map (make_file_info fs)
       (filter (\<lambda>p. \<not> str_in (py ''node_modules'') p \<and>
                    \<not> startswith p (py ''.claude/commands/'') \<and>
                    p \<in> set [py ''README.md'', py ''CLAUDE.md'', py ''AI-Roles.md'',
                               py ''core-principles.md'', py ''CHANGELOG.md'']) ms)"
  "project_files (categorize fs ms cats) =
     project_files cats @
     map (make_file_info fs)
       (filter (\<lambda>p. \<not> str_in (py ''node_modules'') p \<and>
                    \<not> startswith p (py ''.claude/commands/'') \<and>
                    p \<notin> set [py ''README.md'', py ''CLAUDE.md'', py ''AI-Roles.md'',
                               py ''core-principles.md'', py ''CHANGELOG.md'']) ms)"
  by (induction ms arbitrary: cats; simp add: Let_def)+

lemma convert_categories: "set (map category (convert items)) \<subseteq> {c. \<exists>l. (c, l) \<in> set items \<and> l \<noteq> []}"
  by (induction items rule: convert.induct) auto

text \<open>A path whose first name starts with a dot is not in the result of \<^verbatim>\<open>glob\<close>.\<close>

lemma dot_path_hidden: "startswith p (py ''.'') \<Longrightarrow> list_ex ishidden (components p)"
  by (cases p) (auto simp: ishidden_def split: list.splits)

lemma glob_md_no_commands:
  "filter (\<lambda>p. \<not> str_in (py ''node_modules'') p \<and> startswith p (py ''.claude/commands/''))
     (glob_md entries) = []"
proof -
  have "startswith p (py ''.'')" if "startswith p (py ''.claude/commands/'')" for p :: str
    using that by (cases p) auto
  then have "\<not> startswith p (py ''.claude/commands/'')" if "p \<in> set (glob_md entries)" for p
    using that dot_path_hidden unfolding glob_md_def by auto
  then show ?thesis by (auto simp: filter_empty_conv)
qed

text \<open>
  C8. The code does not do what the claim says of \<^verbatim>\<open>.claude/commands/coder.md\<close>. The
  handler has a bucket \<^verbatim>\<open>Role Commands\<close> and tests twice for paths under
  \<^verbatim>\<open>.claude/commands/\<close>, but it lists the files with \<^verbatim>\<open>glob\<close>, which never enters a
  hidden directory: no scan of the disk gives a \<^verbatim>\<open>Role Commands\<close> bucket. On the disk
  below, which holds \<^verbatim>\<open>AI-Roles.md\<close>, \<^verbatim>\<open>docs/guide.md\<close> and
  \<^verbatim>\<open>.claude/commands/coder.md\<close>, the listing has the first two, in \<^verbatim>\<open>Core Documentation\<close>
  and \<^verbatim>\<open>Project Files\<close>, and \<^verbatim>\<open>coder.md\<close> is in no bucket.
\<close>

theorem role_commands_never_listed:
  "py ''Role Commands'' \<notin> set (map category (get_all_md_files fs entries)) \<and>
   get_all_md_files
     (Map.empty(py ''AI-Roles.md'' \<mapsto> Text_file (py ''# Roles\<newline>''),
                py ''docs/guide.md'' \<mapsto> Text_file (py ''# Guide\<newline>''),
                py ''.claude/commands/coder.md'' \<mapsto> Text_file (py ''# Coder\<newline>'')))
     [py ''.claude'', py ''.claude/commands'', py ''.claude/commands/coder.md'',
      py ''AI-Roles.md'', py ''docs'', py ''docs/guide.md'']
   = [\<lparr>category = py ''Core Documentation'',
       files = [\<lparr>fi_name = py ''AI-Roles.md'', fi_path = py ''/AI-Roles.md'',
                  fi_type = py ''roles'', fi_preview = py ''Markdown documentation file''\<rparr>]\<rparr>,
      \<lparr>category = py ''Project Files'',
       files = [\<lparr>fi_name = py ''guide.md'', fi_path = py ''/docs/guide.md'',
                  fi_type = py ''doc'', fi_preview = py ''Markdown documentation file''\<rparr>]\<rparr>]"
proof (intro conjI)
  let ?cats = "categorize fs (glob_md entries)
      \<lparr>core_documentation = [], project_files = [], role_commands = []\<rparr>"
  have "role_commands ?cats = []"
    unfolding categorize_lists glob_md_no_commands by simp
  then have "set (map category (get_all_md_files fs entries))
      \<subseteq> {py ''Core Documentation'', py ''Project Files''}"
    using convert_categories
      [of "[(py ''Core Documentation'', core_documentation ?cats),
            (py ''Project Files'', project_files ?cats),
            (py ''Role Commands'', role_commands ?cats)]"]
    by (auto simp: get_all_md_files_def Let_def)
  then show "py ''Role Commands'' \<notin> set (map category (get_all_md_files fs entries))"
    by auto
next
  show "get_all_md_files
     (Map.empty(py ''AI-Roles.md'' \<mapsto> Text_file (py ''# Roles\<newline>''),
                py ''docs/guide.md'' \<mapsto> Text_file (py ''# Guide\<newline>''),
                py ''.claude/commands/coder.md'' \<mapsto> Text_file (py ''# Coder\<newline>'')))
     [py ''.claude'', py ''.claude/commands'', py ''.claude/commands/coder.md'',
      py ''AI-Roles.md'', py ''docs'', py ''docs/guide.md'']
   = [\<lparr>category = py ''Core Documentation'',
       files = [\<lparr>fi_name = py ''AI-Roles.md'', fi_path = py ''/AI-Roles.md'',
                  fi_type = py ''roles'', fi_preview = py ''Markdown documentation file''\<rparr>]\<rparr>,
      \<lparr>category = py ''Project Files'',
       files = [\<lparr>fi_name = py ''guide.md'', fi_path = py ''/docs/guide.md'',
                  fi_type = py ''doc'', fi_preview = py ''Markdown documentation file''\<rparr>]\<rparr>]"
    by (simp add: get_all_md_files_def Let_def glob_md_def ishidden_def endswith_def
          basename_def make_file_info_def get_file_type_def get_file_preview_def
          read_text_def strip_def is_space_def)
qed

end
